theory Spec2Isabelle
  imports Main
begin

section \<open>Data model\<close>

text \<open>
  The update and delete policies are typed \<^verbatim>\<open>T extends { id: string }\<close>: an entity
  is any record that has at least an \<open>id\<close> field of type string. The extensible record
  \<open>entity\<close> is that bound; its schemes \<open>'a entity_scheme\<close> are the types \<open>T\<close>.
  (The field is called \<open>entity_id\<close>, since \<open>id\<close> is the identity function of HOL.)
\<close>

record entity =
  entity_id :: string

text \<open>The \<^verbatim>\<open>User\<close> of the test suite: an entity with a name.\<close>

record User = entity +
  name :: string

text \<open>
  The slot \<^verbatim>\<open>error\<close> is declared a string, and the rejected reducer stores
  \<^verbatim>\<open>action.payload as string\<close> there. The assertion \<^verbatim>\<open>as string\<close> does nothing at run
  time, so the slot holds either a string or whatever value the service rejected with.
\<close>

datatype 'x error_value = Message string | Failure 'x

text \<open>
  \<^verbatim>\<open>
  export type EntityState<T> = {
    isLoading: boolean;
    error: string;
    entityList: T[];
    selectedEntity?: T;
  };
  \<close>
\<close>

record ('e, 'x) EntityState =
  isLoading :: bool
  error :: "'x error_value"
  entityList :: "'e list"
  selectedEntity :: "'e option"

text \<open>\<^verbatim>\<open>export type CrudAction = "create" | "update" | "delete" | "list" | "get";\<close>\<close>

datatype CrudAction = Create | Update | Delete | List | Get

section \<open>The array methods the reducers call\<close>

text \<open>
  \<^verbatim>\<open>Array.prototype.findIndex\<close>: the index of the first element that satisfies the
  predicate, scanning from index 0 upwards, and \<open>-1\<close> when none does.
\<close>

fun findIndex_from :: "('a \<Rightarrow> bool) \<Rightarrow> int \<Rightarrow> 'a list \<Rightarrow> int" where
  "findIndex_from P k [] = - 1"
| "findIndex_from P k (x # xs) = (if P x then k else findIndex_from P (k + 1) xs)"

definition findIndex :: "('a \<Rightarrow> bool) \<Rightarrow> 'a list \<Rightarrow> int" where
  "findIndex P xs = findIndex_from P 0 xs"

text \<open>
  \<^verbatim>\<open>Array.prototype.splice\<close>. A negative \<open>start\<close> counts from the end and is clamped
  at 0; a \<open>start\<close> beyond the length is clamped at the length.
\<close>

definition actualStart :: "int \<Rightarrow> 'a list \<Rightarrow> nat" where
  "actualStart start xs =
     (if start < 0 then nat (max (int (length xs) + start) 0)
      else nat (min start (int (length xs))))"

text \<open>
  \<^verbatim>\<open>xs.splice(start)\<close>, with no delete count: every element from the actual start to
  the end is removed. The value is the array that is left.
\<close>

definition splice_start :: "int \<Rightarrow> 'a list \<Rightarrow> 'a list" where
  "splice_start start xs = take (actualStart start xs) xs"

text \<open>
  \<^verbatim>\<open>xs.splice(start, deleteCount)\<close>: the delete count is clamped between 0 and the
  number of elements from the actual start to the end.
\<close>

definition splice_count :: "int \<Rightarrow> int \<Rightarrow> 'a list \<Rightarrow> 'a list" where
  "splice_count start deleteCount xs =
     (let a = actualStart start xs;
          d = nat (min (max deleteCount 0) (int (length xs) - int a))
      in take a xs @ drop (a + d) xs)"

text \<open>\<^verbatim>\<open>xs.push(...ys)\<close> appends the arguments in order.\<close>

definition push :: "'a list \<Rightarrow> 'a list \<Rightarrow> 'a list" where
  "push xs ys = xs @ ys"

section \<open>The merge policies: \<^verbatim>\<open>operationFulfilled\<close>\<close>

text \<open>
  Each policy mutates the entity state it is given; here it returns the new state.
  \<^verbatim>\<open>
  create: (payload, state) => { state.entityList.push(payload); }
  \<close>
\<close>

definition operationFulfilled_create ::
  "'e \<Rightarrow> ('e, 'x) EntityState \<Rightarrow> ('e, 'x) EntityState" where
  "operationFulfilled_create payload state =
     state\<lparr>entityList := push (entityList state) [payload]\<rparr>"

text \<open>
  \<^verbatim>\<open>
  update: (payload, state) => {
    const updatedArray = state.entityList.map((entity) =>
      entity.id === payload.id ? payload : entity)
    state.entityList.splice(0, state.entityList.length)
    state.entityList.push(...updatedArray);
  }
  \<close>
\<close>

definition operationFulfilled_update ::
  "'a entity_scheme \<Rightarrow> ('a entity_scheme, 'x) EntityState
     \<Rightarrow> ('a entity_scheme, 'x) EntityState" where
  "operationFulfilled_update payload state =
     (let updatedArray =
            map (\<lambda>entity. if entity_id entity = entity_id payload then payload else entity)
              (entityList state);
          state1 = state\<lparr>entityList :=
            splice_count 0 (int (length (entityList state))) (entityList state)\<rparr>
      in state1\<lparr>entityList := push (entityList state1) updatedArray\<rparr>)"

text \<open>
  \<^verbatim>\<open>
  list: (payload, state) => {
    state.entityList.splice(0, state.entityList.length);
    state.entityList.push(...payload)
  }
  \<close>
\<close>

definition operationFulfilled_list ::
  "'e list \<Rightarrow> ('e, 'x) EntityState \<Rightarrow> ('e, 'x) EntityState" where
  "operationFulfilled_list payload state =
     (let state1 = state\<lparr>entityList :=
            splice_count 0 (int (length (entityList state))) (entityList state)\<rparr>
      in state1\<lparr>entityList := push (entityList state1) payload\<rparr>)"

text \<open>
  \<^verbatim>\<open>
  delete: (payload, state) => {
    state.entityList.splice(
      state.entityList.findIndex((entity) => entity.id === payload.id));
  }
  \<close>
  The call of \<^verbatim>\<open>splice\<close> has one argument.
\<close>

definition operationFulfilled_delete ::
  "'a entity_scheme \<Rightarrow> ('a entity_scheme, 'x) EntityState
     \<Rightarrow> ('a entity_scheme, 'x) EntityState" where
  "operationFulfilled_delete payload state =
     state\<lparr>entityList :=
       splice_start
         (findIndex (\<lambda>entity. entity_id entity = entity_id payload) (entityList state))
         (entityList state)\<rparr>"

text \<open>
  \<^verbatim>\<open>
  get: (payload, state) => { state.selectedEntity = payload; }
  \<close>
\<close>

definition operationFulfilled_get ::
  "'e \<Rightarrow> ('e, 'x) EntityState \<Rightarrow> ('e, 'x) EntityState" where
  "operationFulfilled_get payload state = state\<lparr>selectedEntity := Some payload\<rparr>"

text \<open>
  The table \<^verbatim>\<open>operationFulfilled\<close> is indexed by the key of the thunk that settled.
  \<^verbatim>\<open>CrudThunks<T, IDType>\<close> fixes what each thunk resolves to: an entity for create,
  update, delete and get, an array of entities for list. A fulfilled payload is
  therefore a key together with a value of the key's type.
\<close>

datatype 'e fulfilled_payload =
    CreatePayload 'e
  | UpdatePayload 'e
  | DeletePayload 'e
  | ListPayload "'e list"
  | GetPayload 'e

fun operationFulfilled ::
  "'a entity_scheme fulfilled_payload \<Rightarrow> ('a entity_scheme, 'x) EntityState
     \<Rightarrow> ('a entity_scheme, 'x) EntityState" where
  "operationFulfilled (CreatePayload p) state = operationFulfilled_create p state"
| "operationFulfilled (UpdatePayload p) state = operationFulfilled_update p state"
| "operationFulfilled (DeletePayload p) state = operationFulfilled_delete p state"
| "operationFulfilled (ListPayload ps) state = operationFulfilled_list ps state"
| "operationFulfilled (GetPayload p) state = operationFulfilled_get p state"

section \<open>The registered reducers: \<^verbatim>\<open>registerCrudReducers\<close>\<close>

text \<open>
  For each key of \<^verbatim>\<open>crudThunks\<close> three cases are added to the builder. Each one
  fetches the entity state with \<^verbatim>\<open>getEntityState\<close> and mutates it; the functions below
  are those mutations, on the entity state.
  \<^verbatim>\<open>
  addCase(crudThunks[key].pending, (state, action) => {
    entityState.isLoading = true;
    entityState.error = "";
  });
  addCase(crudThunks[key].fulfilled, (state, action) => {
    entityState.isLoading = false;
    entityState.error = "";
    operationFulfilled[key](action.payload, entityState);
  });
  addCase(crudThunks[key].rejected, (state, action) => {
    entityState.error = action.payload as string;
    entityState.isLoading = false;
  });
  \<close>
\<close>

datatype ('e, 'x) thunk_action =
    Pending CrudAction
  | Fulfilled "'e fulfilled_payload"
  | Rejected CrudAction "'x error_value"

definition pendingCase :: "('e, 'x) EntityState \<Rightarrow> ('e, 'x) EntityState" where
  "pendingCase entityState = (entityState\<lparr>isLoading := True\<rparr>)\<lparr>error := Message ''''\<rparr>"

definition fulfilledCase ::
  "'a entity_scheme fulfilled_payload \<Rightarrow> ('a entity_scheme, 'x) EntityState
     \<Rightarrow> ('a entity_scheme, 'x) EntityState" where
  "fulfilledCase payload entityState =
     operationFulfilled payload
       ((entityState\<lparr>isLoading := False\<rparr>)\<lparr>error := Message ''''\<rparr>)"

definition rejectedCase ::
  "'x error_value \<Rightarrow> ('e, 'x) EntityState \<Rightarrow> ('e, 'x) EntityState" where
  "rejectedCase payload entityState =
     (entityState\<lparr>error := payload\<rparr>)\<lparr>isLoading := False\<rparr>"

fun registerCrudReducers ::
  "('a entity_scheme, 'x) EntityState \<Rightarrow> ('a entity_scheme, 'x) thunk_action
     \<Rightarrow> ('a entity_scheme, 'x) EntityState" where
  "registerCrudReducers entityState (Pending key) = pendingCase entityState"
| "registerCrudReducers entityState (Fulfilled payload) = fulfilledCase payload entityState"
| "registerCrudReducers entityState (Rejected key payload) = rejectedCase payload entityState"

section \<open>The generated thunk: \<^verbatim>\<open>createCrudThunk\<close>\<close>

text \<open>
  A call of the service function either throws at once or returns a promise, and a
  promise resolves, rejects, or never settles.
\<close>

datatype ('a, 'x) promise = Resolves 'a | Rejects 'x | NeverSettles

datatype ('a, 'x) completion = Returns 'a | Throws 'x

type_synonym ('p, 'a, 'x) serviceFunction = "'p \<Rightarrow> (('a, 'x) promise, 'x) completion"

text \<open>
  What the payload creator hands back to \<^verbatim>\<open>createAsyncThunk\<close>: the resolved value, or
  the object made by \<^verbatim>\<open>rejectWithValue\<close>.
\<close>

datatype ('a, 'x) payload_result = Value 'a | RejectWithValue 'x

text \<open>
  \<^verbatim>\<open>
  async (actionPayload: P, { rejectWithValue }) => {
    try {
      return await params.serviceFunction(actionPayload);
    } catch (error) {
      return rejectWithValue(error);
    }
  }
  \<close>
  The call and the \<^verbatim>\<open>await\<close> are both inside the \<^verbatim>\<open>try\<close>: a throw of the call and a
  rejection of the promise reach the same \<^verbatim>\<open>catch\<close>. Awaiting a promise that never
  settles never returns, and then the promise of the async function never settles.
\<close>

definition payloadCreator ::
  "('p, 'a, 'x) serviceFunction \<Rightarrow> 'p \<Rightarrow> (('a, 'x) payload_result, 'x) promise" where
  "payloadCreator serviceFunction actionPayload =
     (case serviceFunction actionPayload of
        Throws err \<Rightarrow> Resolves (RejectWithValue err)
      | Returns (Resolves v) \<Rightarrow> Resolves (Value v)
      | Returns (Rejects err) \<Rightarrow> Resolves (RejectWithValue err)
      | Returns NeverSettles \<Rightarrow> NeverSettles)"

text \<open>
  \<^verbatim>\<open>createAsyncThunk\<close> belongs to the host framework. Its rule for settling, as the
  framework documents it: a payload creator that resolves with a plain value gives the
  fulfilled action with that value as payload; one that resolves with a
  \<^verbatim>\<open>rejectWithValue\<close> object gives the rejected action with the wrapped value as
  payload; one that rejects gives the rejected action with no payload and the
  serialised exception in \<^verbatim>\<open>action.error\<close>. While the payload creator has not
  settled, no second action is dispatched (\<open>None\<close>).

  \<open>RejectedAction payload err\<close> has the payload of the rejected action and the
  exception that went into \<^verbatim>\<open>action.error\<close>; the latter is \<open>None\<close> when the
  rejection came through \<^verbatim>\<open>rejectWithValue\<close>, where \<^verbatim>\<open>action.error\<close> only holds the
  fixed message of the framework.
\<close>

datatype ('a, 'x) settled_action =
    FulfilledAction 'a
  | RejectedAction "'x option" "'x option"

fun createAsyncThunk ::
  "(('a, 'x) payload_result, 'x) promise \<Rightarrow> ('a, 'x) settled_action option" where
  "createAsyncThunk (Resolves (Value v)) = Some (FulfilledAction v)"
| "createAsyncThunk (Resolves (RejectWithValue err)) = Some (RejectedAction (Some err) None)"
| "createAsyncThunk (Rejects err) = Some (RejectedAction None (Some err))"
| "createAsyncThunk NeverSettles = None"

definition createCrudThunk ::
  "('p, 'a, 'x) serviceFunction \<Rightarrow> 'p \<Rightarrow> ('a, 'x) settled_action option" where
  "createCrudThunk serviceFunction actionPayload =
     createAsyncThunk (payloadCreator serviceFunction actionPayload)"

section \<open>Fixtures of the test suite\<close>

text \<open>
  \<^verbatim>\<open>
  const initialState: EntityState<User> = {
    entityList: [], error: "", isLoading: false, selectedEntity: undefined };
  \<close>
\<close>

definition initialState :: "(User, string) EntityState" where
  "initialState =
     \<lparr>isLoading = False, error = Message '''', entityList = [], selectedEntity = None\<rparr>"

definition existingUser :: User where
  "existingUser = \<lparr>entity_id = ''10'', name = ''Existing User''\<rparr>"

definition updatedUser :: User where
  "updatedUser = \<lparr>entity_id = ''10'', name = ''Updated User''\<rparr>"

definition sonikro :: User where
  "sonikro = \<lparr>entity_id = ''1'', name = ''Sonikro''\<rparr>"

text \<open>A user whose identifier is in none of the lists used below.\<close>

definition strangerUser :: User where
  "strangerUser = \<lparr>entity_id = ''99'', name = ''Stranger''\<rparr>"

text \<open>
  \<^verbatim>\<open>create: async (user: User) => ({ ...user, id: "1" } as User)\<close> of the mock service,
  and a service that always rejects.
\<close>

definition MockUserService_create :: "(User, User, string) serviceFunction" where
  "MockUserService_create user = Returns (Resolves (user\<lparr>entity_id := ''1''\<rparr>))"

definition failingService :: "(User, User, string) serviceFunction" where
  "failingService user = Returns (Rejects ''Network Error'')"

section \<open>Facts about the array methods\<close>

lemma splice_count_all: "splice_count 0 (int (length xs)) xs = []"
  by (simp add: splice_count_def actualStart_def)

lemma findIndex_from_none:
  "(\<And>x. x \<in> set xs \<Longrightarrow> \<not> P x) \<Longrightarrow> findIndex_from P k xs = - 1"
  by (induction xs arbitrary: k) auto

lemma findIndex_from_first:
  "i < length xs \<Longrightarrow> P (xs ! i) \<Longrightarrow> (\<And>j. j < i \<Longrightarrow> \<not> P (xs ! j))
     \<Longrightarrow> findIndex_from P k xs = k + int i"
proof (induction xs arbitrary: k i)
  case Nil
  then show ?case by simp
next
  case (Cons x xs)
  show ?case
  proof (cases i)
    case 0
    with Cons.prems(2) show ?thesis by simp
  next
    case (Suc i')
    have nx: "\<not> P x" using Cons.prems(3) [of 0] Suc by simp
    have "findIndex_from P (k + 1) xs = (k + 1) + int i'"
    proof (rule Cons.IH)
      show "i' < length xs" using Cons.prems(1) Suc by simp
      show "P (xs ! i')" using Cons.prems(2) Suc by simp
      show "\<And>j. j < i' \<Longrightarrow> \<not> P (xs ! j)"
        using Cons.prems(3) Suc by (metis Suc_less_eq nth_Cons_Suc)
    qed
    with nx Suc show ?thesis by simp
  qed
qed

lemma findIndex_none:
  "(\<And>x. x \<in> set xs \<Longrightarrow> \<not> P x) \<Longrightarrow> findIndex P xs = - 1"
  by (simp add: findIndex_def findIndex_from_none)

lemma findIndex_first:
  "i < length xs \<Longrightarrow> P (xs ! i) \<Longrightarrow> (\<And>j. j < i \<Longrightarrow> \<not> P (xs ! j))
     \<Longrightarrow> findIndex P xs = int i"
  using findIndex_from_first [of i xs P 0] by (simp add: findIndex_def)

lemma splice_start_neg1: "splice_start (- 1) xs = butlast xs"
proof -
  have "nat (max (int (length xs) - 1) 0) = length xs - 1"
    by arith
  then show ?thesis
    by (simp add: splice_start_def actualStart_def butlast_conv_take)
qed

lemma splice_start_index: "i \<le> length xs \<Longrightarrow> splice_start (int i) xs = take i xs"
  by (simp add: splice_start_def actualStart_def)

section \<open>Facts about the merge policies\<close>

lemma operationFulfilled_update_eq:
  "operationFulfilled_update p s =
     s\<lparr>entityList := map (\<lambda>e. if entity_id e = entity_id p then p else e) (entityList s)\<rparr>"
  by (simp add: operationFulfilled_update_def splice_count_all push_def Let_def)

lemma operationFulfilled_list_eq:
  "operationFulfilled_list ps s = s\<lparr>entityList := ps\<rparr>"
  by (simp add: operationFulfilled_list_def splice_count_all push_def Let_def)

lemma operationFulfilled_flags:
  "isLoading (operationFulfilled a s) = isLoading s \<and> error (operationFulfilled a s) = error s"
  by (cases a)
    (simp_all add: operationFulfilled_create_def operationFulfilled_update_eq
      operationFulfilled_list_eq operationFulfilled_delete_def operationFulfilled_get_def)

section \<open>Create, list and get\<close>

text \<open>
  Claim C4: the create-fulfilled transition appends the payload at the end of
  \<open>entityList\<close> (the prior elements stay, in order, and the length grows by one), sets
  \<open>isLoading\<close> to false and \<open>error\<close> to the empty string; a second identical create
  appends the payload a second time.
\<close>
theorem create_fulfilled_appends:
  "entityList (fulfilledCase (CreatePayload E) s) = entityList s @ [E]
   \<and> length (entityList (fulfilledCase (CreatePayload E) s)) = length (entityList s) + 1
   \<and> take (length (entityList s)) (entityList (fulfilledCase (CreatePayload E) s)) = entityList s
   \<and> last (entityList (fulfilledCase (CreatePayload E) s)) = E
   \<and> isLoading (fulfilledCase (CreatePayload E) s) = False
   \<and> error (fulfilledCase (CreatePayload E) s) = Message ''''
   \<and> selectedEntity (fulfilledCase (CreatePayload E) s) = selectedEntity s
   \<and> entityList (fulfilledCase (CreatePayload E) (fulfilledCase (CreatePayload E) s))
       = entityList s @ [E, E]"
  by (simp add: fulfilledCase_def operationFulfilled_create_def push_def)

text \<open>
  Claim C5: the list-fulfilled reducer replaces \<open>entityList\<close> by the returned sequence,
  in its order, whatever the list held before, and leaves \<open>selectedEntity\<close> as it was.
\<close>
theorem list_fulfilled_replaces:
  "entityList (operationFulfilled_list S s) = S
   \<and> selectedEntity (operationFulfilled_list S s) = selectedEntity s
   \<and> entityList (fulfilledCase (ListPayload S) s) = S
   \<and> selectedEntity (fulfilledCase (ListPayload S) s) = selectedEntity s"
  by (simp add: fulfilledCase_def operationFulfilled_list_eq)

text \<open>
  Claim C6: the get-fulfilled reducer sets \<open>selectedEntity\<close> to the resolved entity and
  leaves \<open>entityList\<close> unchanged.
\<close>
theorem get_fulfilled_selects:
  "selectedEntity (operationFulfilled_get E s) = Some E
   \<and> entityList (operationFulfilled_get E s) = entityList s
   \<and> selectedEntity (fulfilledCase (GetPayload E) s) = Some E
   \<and> entityList (fulfilledCase (GetPayload E) s) = entityList s"
  by (simp add: fulfilledCase_def operationFulfilled_get_def)

section \<open>The three phases\<close>

text \<open>
  Claim C7: for each of the five operations and every prior state, the pending reducer
  sets \<open>isLoading\<close> to true and \<open>error\<close> to the empty string; the rejected reducer sets
  \<open>isLoading\<close> to false and \<open>error\<close> to the rejected value, and leaves \<open>entityList\<close>
  and \<open>selectedEntity\<close> untouched; the fulfilled reducer sets \<open>isLoading\<close> to false
  and \<open>error\<close> to the empty string and then applies the merge policy of the operation,
  which changes neither of the two.
\<close>
theorem lifecycle_flags:
  "isLoading (registerCrudReducers s (Pending k)) = True
   \<and> error (registerCrudReducers s (Pending k)) = Message ''''
   \<and> entityList (registerCrudReducers s (Pending k)) = entityList s
   \<and> selectedEntity (registerCrudReducers s (Pending k)) = selectedEntity s
   \<and> isLoading (registerCrudReducers s (Rejected k v)) = False
   \<and> error (registerCrudReducers s (Rejected k v)) = v
   \<and> entityList (registerCrudReducers s (Rejected k v)) = entityList s
   \<and> selectedEntity (registerCrudReducers s (Rejected k v)) = selectedEntity s
   \<and> registerCrudReducers s (Fulfilled a)
       = operationFulfilled a (s\<lparr>isLoading := False, error := Message ''''\<rparr>)
   \<and> isLoading (registerCrudReducers s (Fulfilled a)) = False
   \<and> error (registerCrudReducers s (Fulfilled a)) = Message ''''"
  by (simp add: pendingCase_def rejectedCase_def fulfilledCase_def operationFulfilled_flags)


section \<open>Delete\<close>

text \<open>
  Claim C1: for every entity E present in \<open>entityList\<close>, the delete-fulfilled reducer
  with payload E removes the element whose identifier equals that of E, and the list
  becomes exactly one shorter.

  The reducer calls \<^verbatim>\<open>splice\<close> with the found index and no delete count, so it
  removes the match and everything after it. On the list of two users, deleting the
  first one leaves the empty list: the length drops by two, not by one.
\<close>
theorem delete_fulfilled_first_of_two:
  "entityList (operationFulfilled_delete sonikro
       (initialState\<lparr>entityList := [sonikro, existingUser]\<rparr>)) = []
   \<and> length (entityList (operationFulfilled_delete sonikro
       (initialState\<lparr>entityList := [sonikro, existingUser]\<rparr>)))
     \<noteq> length [sonikro, existingUser] - 1"
  by (simp add: operationFulfilled_delete_def findIndex_def splice_start_def actualStart_def
      initialState_def sonikro_def existingUser_def)

text \<open>
  Claim C2: when no element of \<open>entityList\<close> has the identifier of the delete payload,
  \<^verbatim>\<open>findIndex\<close> gives \<open>-1\<close> and the reducer removes the trailing slice that starts at
  index \<open>-1\<close>: the list loses its last element (a non-empty list is shortened by one
  and so is not left unchanged).
\<close>
theorem delete_fulfilled_no_match:
  assumes "\<And>e. e \<in> set (entityList s) \<Longrightarrow> entity_id e \<noteq> entity_id p"
  shows "findIndex (\<lambda>entity. entity_id entity = entity_id p) (entityList s) = - 1
    \<and> entityList (operationFulfilled_delete p s) = splice_start (- 1) (entityList s)
    \<and> entityList (operationFulfilled_delete p s) = butlast (entityList s)
    \<and> (entityList s \<noteq> [] \<longrightarrow>
          entityList s = entityList (operationFulfilled_delete p s) @ [last (entityList s)]
        \<and> length (entityList (operationFulfilled_delete p s)) = length (entityList s) - 1
        \<and> entityList (operationFulfilled_delete p s) \<noteq> entityList s)"
proof -
  have fi: "findIndex (\<lambda>entity. entity_id entity = entity_id p) (entityList s) = - 1"
    using assms by (intro findIndex_none) simp
  have del: "entityList (operationFulfilled_delete p s) = butlast (entityList s)"
    by (simp add: operationFulfilled_delete_def fi splice_start_neg1)
  have ne: "entityList s \<noteq> [] \<Longrightarrow> butlast (entityList s) \<noteq> entityList s"
    by (cases "entityList s" rule: rev_cases) simp_all
  show ?thesis
    using fi del ne by (simp add: splice_start_neg1)
qed

theorem delete_fulfilled_no_match_witness:
  "entityList (operationFulfilled_delete strangerUser
      (initialState\<lparr>entityList := [sonikro, existingUser]\<rparr>)) = [sonikro]
   \<and> sonikro \<noteq> strangerUser \<and> existingUser \<noteq> strangerUser"
proof -
  let ?s = "initialState\<lparr>entityList := [sonikro, existingUser]\<rparr>"
  have h: "\<And>e. e \<in> set (entityList ?s) \<Longrightarrow> entity_id e \<noteq> entity_id strangerUser"
    by (auto simp: sonikro_def existingUser_def strangerUser_def)
  show ?thesis
    using delete_fulfilled_no_match [of ?s strangerUser, OF h]
    by (simp add: sonikro_def existingUser_def strangerUser_def)
qed

text \<open>
  Claim C10: when \<open>entityList\<close> has a matching element and the first match is at index
  \<open>i\<close>, the delete-fulfilled reducer removes every element at index \<open>i\<close> and beyond:
  the resulting list is the prefix of length \<open>i\<close> of the original list.
\<close>
theorem delete_fulfilled_truncates:
  assumes "i < length (entityList s)"
    and "entity_id (entityList s ! i) = entity_id p"
    and "\<And>j. j < i \<Longrightarrow> entity_id (entityList s ! j) \<noteq> entity_id p"
  shows "findIndex (\<lambda>entity. entity_id entity = entity_id p) (entityList s) = int i
    \<and> entityList (operationFulfilled_delete p s) = take i (entityList s)
    \<and> length (entityList (operationFulfilled_delete p s)) = i"
proof -
  have fi: "findIndex (\<lambda>entity. entity_id entity = entity_id p) (entityList s) = int i"
    using assms by (intro findIndex_first) simp_all
  have "entityList (operationFulfilled_delete p s) = take i (entityList s)"
    using assms(1) by (simp add: operationFulfilled_delete_def fi splice_start_index)
  with fi assms(1) show ?thesis by simp
qed

theorem delete_fulfilled_truncates_witness:
  "entityList (operationFulfilled_delete existingUser
      (initialState\<lparr>entityList := [sonikro, existingUser, strangerUser]\<rparr>)) = [sonikro]"
proof -
  let ?s = "initialState\<lparr>entityList := [sonikro, existingUser, strangerUser]\<rparr>"
  have h1: "1 < length (entityList ?s)" by simp
  have h2: "entity_id (entityList ?s ! 1) = entity_id existingUser" by simp
  have h3: "\<And>j. j < 1 \<Longrightarrow> entity_id (entityList ?s ! j) \<noteq> entity_id existingUser"
    by (simp add: sonikro_def existingUser_def)
  show ?thesis
    using delete_fulfilled_truncates [OF h1 h2 h3] by simp
qed

section \<open>Update\<close>

text \<open>
  Claim C3: the update-fulfilled reducer replaces every list element whose identifier
  equals that of the payload with the payload, keeps every other element, keeps each
  position and the length of the list; when no identifier matches, \<open>entityList\<close> is
  unchanged.
\<close>
theorem update_fulfilled_replaces:
  "length (entityList (operationFulfilled_update p s)) = length (entityList s)
   \<and> (\<forall>i. i < length (entityList s) \<longrightarrow>
         entityList (operationFulfilled_update p s) ! i =
           (if entity_id (entityList s ! i) = entity_id p then p else entityList s ! i))
   \<and> ((\<forall>e. e \<in> set (entityList s) \<longrightarrow> entity_id e \<noteq> entity_id p) \<longrightarrow>
         entityList (operationFulfilled_update p s) = entityList s)
   \<and> selectedEntity (operationFulfilled_update p s) = selectedEntity s"
proof -
  have "(\<forall>e. e \<in> set (entityList s) \<longrightarrow> entity_id e \<noteq> entity_id p) \<longrightarrow>
      map (\<lambda>e. if entity_id e = entity_id p then p else e) (entityList s) = entityList s"
    by (simp add: map_idI)
  then show ?thesis
    by (simp add: operationFulfilled_update_eq)
qed

theorem update_fulfilled_replaces_witness:
  "entityList (operationFulfilled_update updatedUser
      (initialState\<lparr>entityList := [sonikro, existingUser]\<rparr>)) ! 1 = updatedUser
   \<and> entityList (operationFulfilled_update updatedUser
      (initialState\<lparr>entityList := [sonikro, existingUser]\<rparr>)) ! 0 = sonikro
   \<and> entityList (operationFulfilled_update strangerUser
      (initialState\<lparr>entityList := [sonikro, existingUser]\<rparr>)) = [sonikro, existingUser]"
proof -
  let ?s = "initialState\<lparr>entityList := [sonikro, existingUser]\<rparr>"
  have a: "entityList (operationFulfilled_update updatedUser ?s) ! 1 = updatedUser"
    using update_fulfilled_replaces [of updatedUser ?s]
    by (simp add: updatedUser_def existingUser_def)
  have b: "entityList (operationFulfilled_update updatedUser ?s) ! 0 = sonikro"
    using update_fulfilled_replaces [of updatedUser ?s]
    by (simp add: updatedUser_def sonikro_def)
  have c: "entityList (operationFulfilled_update strangerUser ?s) = [sonikro, existingUser]"
    using update_fulfilled_replaces [of strangerUser ?s]
    by (simp add: strangerUser_def sonikro_def existingUser_def)
  from a b c show ?thesis by simp
qed


section \<open>The thunk\<close>

text \<open>
  Claim C8: if the promise of the service function resolves, the generated thunk
  settles fulfilled with the resolved value; if it rejects (or the call throws), the
  failure is caught and the thunk settles rejected with the failure value itself as
  payload; the payload creator never rejects, that is, never throws the exception on.
\<close>
theorem createCrudThunk_settles:
  "(serviceFunction actionPayload = Returns (Resolves v) \<longrightarrow>
       createCrudThunk serviceFunction actionPayload = Some (FulfilledAction v))
   \<and> (serviceFunction actionPayload = Returns (Rejects err) \<longrightarrow>
       createCrudThunk serviceFunction actionPayload = Some (RejectedAction (Some err) None))
   \<and> (serviceFunction actionPayload = Throws err \<longrightarrow>
       createCrudThunk serviceFunction actionPayload = Some (RejectedAction (Some err) None))
   \<and> (\<forall>e. payloadCreator serviceFunction actionPayload \<noteq> Rejects e)"
  by (simp add: createCrudThunk_def payloadCreator_def split: completion.split promise.split)

theorem createCrudThunk_settles_witness:
  "createCrudThunk MockUserService_create (sonikro\<lparr>entity_id := []\<rparr>)
     = Some (FulfilledAction sonikro)
   \<and> createCrudThunk failingService sonikro
     = Some (RejectedAction (Some ''Network Error'') None)"
proof -
  have a: "MockUserService_create (sonikro\<lparr>entity_id := []\<rparr>) = Returns (Resolves sonikro)"
    by (simp add: MockUserService_create_def sonikro_def)
  have b: "failingService sonikro = Returns (Rejects ''Network Error'')"
    by (simp add: failingService_def)
  from a createCrudThunk_settles [of MockUserService_create "sonikro\<lparr>entity_id := []\<rparr>" sonikro]
  have c: "createCrudThunk MockUserService_create (sonikro\<lparr>entity_id := []\<rparr>)
     = Some (FulfilledAction sonikro)"
    by simp
  from b createCrudThunk_settles [of failingService sonikro _ "''Network Error''"]
  have d: "createCrudThunk failingService sonikro
     = Some (RejectedAction (Some ''Network Error'') None)"
    by simp
  from c d show ?thesis by simp
qed

section \<open>Idempotence\<close>

text \<open>
  Claim C9: the merge policies of update, list and get are idempotent: applying one
  twice with the same payload gives the same entity state as applying it once. Create
  is not (the second create appends the payload again, in every state), and delete is
  not (on the list of two users, deleting the second one twice empties the list).
\<close>
theorem merge_policy_idempotence:
  "operationFulfilled (UpdatePayload p) (operationFulfilled (UpdatePayload p) s)
     = operationFulfilled (UpdatePayload p) s
   \<and> operationFulfilled (ListPayload ps) (operationFulfilled (ListPayload ps) s)
     = operationFulfilled (ListPayload ps) s
   \<and> operationFulfilled (GetPayload p) (operationFulfilled (GetPayload p) s)
     = operationFulfilled (GetPayload p) s
   \<and> operationFulfilled (CreatePayload p) (operationFulfilled (CreatePayload p) s)
     \<noteq> operationFulfilled (CreatePayload p) s
   \<and> entityList (operationFulfilled (CreatePayload p) (operationFulfilled (CreatePayload p) s))
     = entityList s @ [p, p]
   \<and> operationFulfilled (DeletePayload existingUser)
       (operationFulfilled (DeletePayload existingUser)
          (initialState\<lparr>entityList := [sonikro, existingUser]\<rparr>))
     \<noteq> operationFulfilled (DeletePayload existingUser)
          (initialState\<lparr>entityList := [sonikro, existingUser]\<rparr>)"
proof -
  have upd: "operationFulfilled_update p (operationFulfilled_update p s)
      = operationFulfilled_update p s"
    by (simp add: operationFulfilled_update_eq o_def cong: if_cong)
  have lst: "operationFulfilled_list ps (operationFulfilled_list ps s)
      = operationFulfilled_list ps s"
    by (simp add: operationFulfilled_list_eq)
  have gt: "operationFulfilled_get p (operationFulfilled_get p s) = operationFulfilled_get p s"
    by (simp add: operationFulfilled_get_def)
  have cr2: "entityList (operationFulfilled_create p (operationFulfilled_create p s))
      = entityList s @ [p, p]"
    by (simp add: operationFulfilled_create_def push_def)
  have cr: "operationFulfilled_create p (operationFulfilled_create p s)
      \<noteq> operationFulfilled_create p s"
  proof
    assume "operationFulfilled_create p (operationFulfilled_create p s)
      = operationFulfilled_create p s"
    then have "entityList (operationFulfilled_create p (operationFulfilled_create p s))
      = entityList (operationFulfilled_create p s)"
      by simp
    then show False
      by (simp add: operationFulfilled_create_def push_def)
  qed
  let ?s = "initialState\<lparr>entityList := [sonikro, existingUser]\<rparr>"
  have d1: "entityList (operationFulfilled_delete existingUser ?s) = [sonikro]"
    by (simp add: operationFulfilled_delete_def findIndex_def splice_start_def actualStart_def
        sonikro_def existingUser_def)
  have d2: "entityList (operationFulfilled_delete existingUser
              (operationFulfilled_delete existingUser ?s)) = []"
    by (simp add: operationFulfilled_delete_def findIndex_def splice_start_def actualStart_def
        sonikro_def existingUser_def)
  have dl: "operationFulfilled_delete existingUser (operationFulfilled_delete existingUser ?s)
      \<noteq> operationFulfilled_delete existingUser ?s"
  proof
    assume "operationFulfilled_delete existingUser (operationFulfilled_delete existingUser ?s)
      = operationFulfilled_delete existingUser ?s"
    then have "entityList (operationFulfilled_delete existingUser
        (operationFulfilled_delete existingUser ?s))
      = entityList (operationFulfilled_delete existingUser ?s)"
      by simp
    with d1 d2 show False by simp
  qed
  from upd lst gt cr cr2 dl show ?thesis by simp
qed

end
